theory Spec2Isabelle
  imports Complex_Main "HOL-Library.Sublist"
begin

section \<open>Values of the host language\<close>

text \<open>
  The dashboards are JavaScript. Strings are modelled as \<^typ>\<open>string\<close> and read as
  ASCII text; numbers are mathematical integers and reals, which is what the doubles of
  the source are below \<open>2^53\<close>. A result of \<^verbatim>\<open>Math.random()\<close> is a number \<open>r\<close> with
  \<open>0 \<le> r < 1\<close>; the type below holds exactly these.
\<close>

typedef unit_interval = "{x::real. 0 \<le> x \<and> x < 1}"
  by (rule exI [of _ 0]) simp

setup_lifting type_definition_unit_interval

lift_definition half :: unit_interval is "1 / 2"
  by simp

lift_definition tenth :: unit_interval is "1 / 10"
  by simp

lift_definition nine_tenths :: unit_interval is "9 / 10"
  by simp

text \<open>\<^verbatim>\<open>Math.floor(Math.random() * n)\<close>, for the draw \<open>r\<close>.\<close>

definition randomIndex :: "unit_interval \<Rightarrow> nat \<Rightarrow> nat" where
  "randomIndex r n = nat \<lfloor>Rep_unit_interval r * real n\<rfloor>"

text \<open>The result of \<^verbatim>\<open>parseInt\<close>: an integer, or \<^verbatim>\<open>NaN\<close>.\<close>

datatype number = NaN | Num int

definition isWhiteSpace :: "char \<Rightarrow> bool" where
  "isWhiteSpace c = (c \<in> set [CHR 0x09, CHR 0x0A, CHR 0x0B, CHR 0x0C, CHR 0x0D, CHR '' ''])"

definition digitVal :: "char \<Rightarrow> nat option" where
  "digitVal c =
     (let n = (of_char c :: nat) in
      if 48 \<le> n \<and> n \<le> 57 then Some (n - 48)
      else if 97 \<le> n \<and> n \<le> 122 then Some (n - 87)
      else if 65 \<le> n \<and> n \<le> 90 then Some (n - 55)
      else None)"

definition isDigitOf :: "nat \<Rightarrow> char \<Rightarrow> bool" where
  "isDigitOf R c = (case digitVal c of None \<Rightarrow> False | Some d \<Rightarrow> d < R)"

definition digitsValue :: "nat \<Rightarrow> string \<Rightarrow> nat" where
  "digitsValue R Z = foldl (\<lambda>a c. a * R + (case digitVal c of None \<Rightarrow> 0 | Some d \<Rightarrow> d)) 0 Z"

text \<open>
  \<^verbatim>\<open>parseInt(str)\<close> with no radix: leading white space is skipped, a sign is read, a
  prefix \<^verbatim>\<open>0x\<close> selects radix 16, and the longest prefix of digits is the value; with
  no digit the result is \<^verbatim>\<open>NaN\<close>.
\<close>

definition parseInt :: "string \<Rightarrow> number" where
  "parseInt str =
     (let S = dropWhile isWhiteSpace str;
          neg = (case S of [] \<Rightarrow> False | c # _ \<Rightarrow> c = CHR ''-'');
          S1 = (case S of [] \<Rightarrow> [] | c # cs \<Rightarrow> if c = CHR ''-'' \<or> c = CHR ''+'' then cs else S);
          hex = (case S1 of a # b # _ \<Rightarrow> a = CHR ''0'' \<and> (b = CHR ''x'' \<or> b = CHR ''X'') | _ \<Rightarrow> False);
          R = (if hex then 16 else 10);
          S2 = (if hex then drop 2 S1 else S1);
          Z = takeWhile (isDigitOf R) S2
      in if Z = [] then NaN
         else Num ((if neg then - 1 else 1) * int (digitsValue R Z)))"

fun showNat :: "nat \<Rightarrow> string" where
  "showNat n =
     (if n < 10 then [''0123456789'' ! n]
      else showNat (n div 10) @ [''0123456789'' ! (n mod 10)])"

declare showNat.simps [simp del]

text \<open>The string a number becomes when it is concatenated to a string.\<close>

definition numberToString :: "number \<Rightarrow> string" where
  "numberToString x =
     (case x of NaN \<Rightarrow> ''NaN''
      | Num k \<Rightarrow> if k < 0 then CHR ''-'' # showNat (nat (- k)) else showNat (nat k))"

section \<open>The data layer of the admin dashboard\<close>

text \<open>The lists kept in browser storage, with the fields the dashboard writes.\<close>

record faculty =
  f_id :: int
  f_name :: string
  f_dept :: string
  f_role :: string
  f_subject :: string
  f_current :: int
  f_max :: int

record features =
  hasProjector :: bool
  hasLab :: bool
  hasAC :: bool

record room =
  r_id :: int
  r_building :: string
  r_number :: string
  r_fullName :: string
  r_type :: string
  r_capacity :: int
  r_features :: features

record entry =
  t_id :: real
  t_day :: string
  t_time :: string
  t_subject :: string
  t_faculty :: string
  t_room :: string
  t_dept :: string
  t_sem :: string
  t_section :: string
  t_program :: string
  t_year :: string

text \<open>\<^verbatim>\<open>getFilterCriteria\<close>: the five values selected in the page.\<close>

record criteria =
  c_year :: string
  c_program :: string
  c_dept :: string
  c_sem :: string
  c_section :: string

section \<open>Timetable generation\<close>

text \<open>
  \<^verbatim>\<open>generateTimetable\<close> calls \<^verbatim>\<open>Math.random()\<close> and \<^verbatim>\<open>Date.now()\<close>. The
  world of a run gives the result of the \<open>k\<close>-th call of each; the state of a run
  counts the calls made so far and holds the list being built.
\<close>

record world =
  Math_random :: "nat \<Rightarrow> unit_interval"
  Date_now :: "nat \<Rightarrow> int"

record run =
  allTimetableData :: "entry list"
  drawn :: nat
  clocked :: nat

definition times_slots :: "string list" where
  "times_slots = [''09:00'', ''10:00'', ''11:00'', ''12:00'', ''01:00'', ''02:00'', ''03:00'']"

definition days :: "string list" where
  "days = [''Monday'', ''Tuesday'', ''Wednesday'', ''Thursday'', ''Friday'']"

definition subjects :: "string list" where
  "subjects = [''Data Structures'', ''Algorithms'', ''Database Systems'', ''OS'', ''Networks'',
     ''AI/ML'', ''Cloud Computing'']"

text \<open>The test of the filter: \<^verbatim>\<open>t.dept === dept && t.sem === sem && t.section === section\<close>.\<close>

definition matchesCriteria :: "criteria \<Rightarrow> entry \<Rightarrow> bool" where
  "matchesCriteria c t = (t_dept t = c_dept c \<and> t_sem t = c_sem c \<and> t_section t = c_section c)"

text \<open>\<^verbatim>\<open>JSON.parse(localStorage.getItem('timeWeaver_timetable')) || []\<close>.\<close>

definition loadStored :: "entry list option \<Rightarrow> entry list" where
  "loadStored st = (case st of None \<Rightarrow> [] | Some ts \<Rightarrow> ts)"

text \<open>The label of a room when no classroom is stored.\<close>

definition fallbackRoom :: "string \<Rightarrow> nat \<Rightarrow> string" where
  "fallbackRoom sem k =
     ''R-'' @ numberToString
       (case parseInt sem of NaN \<Rightarrow> NaN | Num s \<Rightarrow> Num (100 + s * 10 + int k))"

text \<open>
  The body of the inner loop, for one day and one time. The calls of
  \<^verbatim>\<open>Math.random()\<close> are numbered in the order of evaluation: the test against
  \<open>0.2\<close>, the subject, the faculty member (only when the department has one), the
  room, and the identifier.
\<close>

definition generateCell ::
  "world \<Rightarrow> criteria \<Rightarrow> faculty list \<Rightarrow> room list \<Rightarrow> string \<Rightarrow> string \<Rightarrow> run \<Rightarrow> run" where
  "generateCell w c facultyData roomData day time s =
     (let n0 = drawn s in
      if Rep_unit_interval (Math_random w n0) > 0.2 then
        let randomSubject = subjects ! randomIndex (Math_random w (n0 + 1)) (length subjects);
            deptFaculty = filter (\<lambda>f. f_dept f = c_dept c) facultyData;
            assignedFaculty =
              (if length deptFaculty > 0
               then f_name (deptFaculty ! randomIndex (Math_random w (n0 + 2)) (length deptFaculty))
               else ''TBA'');
            n3 = (if length deptFaculty > 0 then n0 + 3 else n0 + 2);
            relevantRooms = filter (\<lambda>r. r_type r = ''classroom'') roomData;
            assignedRoom =
              (if length relevantRooms > 0
               then r_fullName (relevantRooms ! randomIndex (Math_random w n3) (length relevantRooms))
               else fallbackRoom (c_sem c) (randomIndex (Math_random w n3) 5))
        in \<lparr>allTimetableData = allTimetableData s @
               [\<lparr>t_id = real_of_int (Date_now w (clocked s))
                        + Rep_unit_interval (Math_random w (n3 + 1)),
                 t_day = day, t_time = time, t_subject = randomSubject,
                 t_faculty = assignedFaculty, t_room = assignedRoom,
                 t_dept = c_dept c, t_sem = c_sem c, t_section = c_section c,
                 t_program = c_program c, t_year = c_year c\<rparr>],
             drawn = n3 + 2, clocked = clocked s + 1\<rparr>
      else s\<lparr>drawn := n0 + 1\<rparr>)"

text \<open>
  \<^verbatim>\<open>generateTimetable\<close>. The answer to the confirmation dialog is an input, and the
  result is the value of the key \<^verbatim>\<open>timeWeaver_timetable\<close> afterwards. The mode only
  appears in the text of the dialog.
\<close>

definition generateTimetable ::
  "world \<Rightarrow> bool \<Rightarrow> criteria \<Rightarrow> faculty list \<Rightarrow> room list \<Rightarrow> entry list option
     \<Rightarrow> entry list option" where
  "generateTimetable w confirmed c facultyData roomData stored =
     (if \<not> confirmed then stored
      else
        let kept = filter (\<lambda>t. \<not> matchesCriteria c t) (loadStored stored);
            final = fold (\<lambda>day. fold (\<lambda>time. generateCell w c facultyData roomData day time)
                      times_slots) days
                      \<lparr>allTimetableData = kept, drawn = 0, clocked = 0\<rparr>
        in Some (allTimetableData final))"

section \<open>Properties of schedules\<close>

text \<open>The slot of an entry: its day and its time.\<close>


definition slotOf :: "entry \<Rightarrow> string \<times> string" where
  "slotOf t = (t_day t, t_time t)"

text \<open>
  What every entry written by a run has: the tags of the criteria, a subject of the
  list, a faculty member of the department (or \<^verbatim>\<open>TBA\<close>) and a room of type
  \<^verbatim>\<open>classroom\<close> (or a label \<^verbatim>\<open>R-\<close> with a number).
\<close>

definition producedFor :: "criteria \<Rightarrow> faculty list \<Rightarrow> room list \<Rightarrow> entry \<Rightarrow> bool" where
  "producedFor c facultyData roomData e =
     (matchesCriteria c e \<and> t_program e = c_program c \<and> t_year e = c_year c \<and>
      t_subject e \<in> set subjects \<and>
      (let deptFaculty = filter (\<lambda>f. f_dept f = c_dept c) facultyData in
         if deptFaculty = [] then t_faculty e = ''TBA''
         else t_faculty e \<in> f_name ` set deptFaculty) \<and>
      (let relevantRooms = filter (\<lambda>r. r_type r = ''classroom'') roomData in
         if relevantRooms = [] then (\<exists>k<5. t_room e = fallbackRoom (c_sem c) k)
         else t_room e \<in> r_fullName ` set relevantRooms))"

text \<open>
  The properties the specification asks of a schedule, as tests on a list of entries.
  No two entries share a room and a slot, or a faculty member and a slot:
\<close>

definition noDoubleBooking :: "entry list \<Rightarrow> bool" where
  "noDoubleBooking ts =
     (distinct (map (\<lambda>t. (t_room t, t_day t, t_time t)) ts) \<and>
      distinct (map (\<lambda>t. (t_faculty t, t_day t, t_time t)) ts))"





text \<open>
  The tie-break of the specification, for rooms: an entry in a stored classroom is in
  one of lowest identifier.
\<close>

definition commitsLowestRoomId :: "room list \<Rightarrow> entry list \<Rightarrow> bool" where
  "commitsLowestRoomId roomData ts =
     (let relevantRooms = filter (\<lambda>r. r_type r = ''classroom'') roomData in
      list_all (\<lambda>t. list_all (\<lambda>r. r_fullName r = t_room t \<longrightarrow>
          list_all (\<lambda>r'. r_id r \<le> r_id r') relevantRooms) relevantRooms) ts)"

section \<open>Saving a room\<close>

text \<open>The values of the form of the room dialog.\<close>

record room_form =
  room_building :: string
  room_number :: string
  room_type :: string
  room_capacity :: string
  room_projector :: bool
  room_lab :: bool
  room_ac :: bool

definition required_fields_alert :: string where
  "required_fields_alert = ''Please fill required fields (Building, Number, Capacity)''"

text \<open>
  \<^verbatim>\<open>saveRoom\<close>, with the result of \<^verbatim>\<open>Date.now()\<close> as an input. The result is the
  text of the alert, if one is shown, and the room list afterwards. The test
  \<^verbatim>\<open>!capacity\<close> holds of \<^verbatim>\<open>NaN\<close> and of zero.
\<close>

definition saveRoom :: "room_form \<Rightarrow> int \<Rightarrow> room list \<Rightarrow> string option \<times> room list" where
  "saveRoom form now roomData =
     (let building = room_building form;
          number = room_number form
      in case parseInt (room_capacity form) of
           NaN \<Rightarrow> (Some required_fields_alert, roomData)
         | Num capacity \<Rightarrow>
             if building = [] \<or> number = [] \<or> capacity = 0
             then (Some required_fields_alert, roomData)
             else (None, roomData @
               [\<lparr>r_id = now, r_building = building, r_number = number,
                 r_fullName = building @ '' - '' @ number,
                 r_type = room_type form, r_capacity = capacity,
                 r_features = \<lparr>hasProjector = room_projector form, hasLab = room_lab form,
                   hasAC = room_ac form\<rparr>\<rparr>]))"

section \<open>The authentication service\<close>

















section \<open>Example inputs\<close>

definition ex_now :: int where
  "ex_now = 1700000000000"

text \<open>
  Worlds: no draw above \<open>0.2\<close>; only the first; the first fifteen; the first and those
  from the 176th on; and a world whose first cell draws the last candidate of each list.
\<close>

definition w_none :: world where
  "w_none = \<lparr>Math_random = (\<lambda>k. tenth), Date_now = (\<lambda>k. ex_now)\<rparr>"

definition w_first :: world where
  "w_first = \<lparr>Math_random = (\<lambda>k. if k = 0 then half else tenth), Date_now = (\<lambda>k. ex_now)\<rparr>"

definition w_three :: world where
  "w_three = \<lparr>Math_random = (\<lambda>k. if k < 15 then half else tenth), Date_now = (\<lambda>k. ex_now)\<rparr>"

definition w_late :: world where
  "w_late = \<lparr>Math_random = (\<lambda>k. if k = 0 \<or> 175 \<le> k then half else tenth),
     Date_now = (\<lambda>k. if k < 35 then ex_now else ex_now + 1)\<rparr>"

definition w_last :: world where
  "w_last = \<lparr>Math_random = (\<lambda>k. if k = 0 then half else if k < 5 then nine_tenths else tenth),
     Date_now = (\<lambda>k. ex_now)\<rparr>"

definition crit_A :: criteria where
  "crit_A = \<lparr>c_year = ''2025-2026'', c_program = ''B.Tech'', c_dept = ''CS'', c_sem = ''3'',
     c_section = ''A''\<rparr>"

definition crit_B :: criteria where
  "crit_B = \<lparr>c_year = ''2025-2026'', c_program = ''B.Tech'', c_dept = ''CS'', c_sem = ''3'',
     c_section = ''B''\<rparr>"

definition ex_faculty :: faculty where
  "ex_faculty = \<lparr>f_id = 2, f_name = ''Prof. Alan Turing'', f_dept = ''CS'', f_role = ''Professor'',
     f_subject = ''Algorithms'', f_current = 0, f_max = 2\<rparr>"

definition ex_room :: room where
  "ex_room = \<lparr>r_id = 1, r_building = ''Block A'', r_number = ''101'',
     r_fullName = ''Block A - 101'', r_type = ''classroom'', r_capacity = 50,
     r_features = \<lparr>hasProjector = True, hasLab = False, hasAC = False\<rparr>\<rparr>"

definition ex_room2 :: room where
  "ex_room2 = \<lparr>r_id = 2, r_building = ''Block A'', r_number = ''102'',
     r_fullName = ''Block A - 102'', r_type = ''classroom'', r_capacity = 50,
     r_features = \<lparr>hasProjector = False, hasLab = False, hasAC = True\<rparr>\<rparr>"

definition ex_entry :: "string \<Rightarrow> entry" where
  "ex_entry sec = \<lparr>t_id = 1699999999999.5, t_day = ''Friday'', t_time = ''03:00'',
     t_subject = ''OS'', t_faculty = ''TBA'', t_room = ''R-130'', t_dept = ''CS'', t_sem = ''3'',
     t_section = sec, t_program = ''B.Tech'', t_year = ''2025-2026''\<rparr>"

definition ex_form :: "string \<Rightarrow> room_form" where
  "ex_form capacity = \<lparr>room_building = ''Block A'', room_number = ''101'',
     room_type = ''classroom'', room_capacity = capacity, room_projector = True,
     room_lab = False, room_ac = False\<rparr>"





section \<open>The shape of a generated timetable\<close>

lemma randomIndex_less: "0 < n \<Longrightarrow> randomIndex r n < n"
proof -
  assume n: "0 < n"
  have r: "0 \<le> Rep_unit_interval r" "Rep_unit_interval r < 1"
    using Rep_unit_interval [of r] by simp_all
  have "Rep_unit_interval r * real n < real n"
    using r n by simp
  then have "\<lfloor>Rep_unit_interval r * real n\<rfloor> < int n"
    by (simp add: floor_less_iff)
  moreover have "0 \<le> \<lfloor>Rep_unit_interval r * real n\<rfloor>"
    using r by simp
  ultimately show ?thesis
    by (simp add: randomIndex_def nat_less_iff)
qed

lemma pick_in_set: "xs \<noteq> [] \<Longrightarrow> xs ! randomIndex r (length xs) \<in> set xs"
  by (simp add: randomIndex_less)

lemma generateCell_data:
  "allTimetableData (generateCell w c F R d t s) = allTimetableData s \<or>
   (\<exists>e. allTimetableData (generateCell w c F R d t s) = allTimetableData s @ [e] \<and>
        slotOf e = (d, t) \<and> producedFor c F R e)"
proof (cases "Rep_unit_interval (Math_random w (drawn s)) > 0.2")
  case False
  then show ?thesis by (simp add: generateCell_def)
next
  case True
  have subj: "\<And>r. subjects ! randomIndex r (length subjects) \<in> set subjects"
    by (rule pick_in_set) (simp add: subjects_def)
  have fb: "\<And>r. randomIndex r 5 < 5"
    by (rule randomIndex_less) simp
  have fac: "\<And>r. filter (\<lambda>f. f_dept f = c_dept c) F \<noteq> [] \<Longrightarrow>
      filter (\<lambda>f. f_dept f = c_dept c) F
        ! randomIndex r (length (filter (\<lambda>f. f_dept f = c_dept c) F))
      \<in> set (filter (\<lambda>f. f_dept f = c_dept c) F)"
    by (rule pick_in_set)
  have rm: "\<And>r. filter (\<lambda>r. r_type r = ''classroom'') R \<noteq> [] \<Longrightarrow>
      filter (\<lambda>r. r_type r = ''classroom'') R
        ! randomIndex r (length (filter (\<lambda>r. r_type r = ''classroom'') R))
      \<in> set (filter (\<lambda>r. r_type r = ''classroom'') R)"
    by (rule pick_in_set)
  show ?thesis
    using True subj fb fac rm
    by (auto simp: generateCell_def Let_def slotOf_def producedFor_def matchesCriteria_def
        intro!: imageI)
qed

lemma fold_times_data:
  "\<exists>new. allTimetableData (fold (generateCell w c F R d) ts s) = allTimetableData s @ new \<and>
     subseq (map slotOf new) (map (Pair d) ts) \<and> (\<forall>e\<in>set new. producedFor c F R e)"
proof (induction ts arbitrary: s)
  case Nil
  then show ?case by simp
next
  case (Cons t ts)
  obtain new where new: "allTimetableData (fold (generateCell w c F R d) ts (generateCell w c F R d t s))
      = allTimetableData (generateCell w c F R d t s) @ new"
    "subseq (map slotOf new) (map (Pair d) ts)" "\<forall>e\<in>set new. producedFor c F R e"
    using Cons.IH by blast
  from generateCell_data [of w c F R d t s] show ?case
  proof
    assume "allTimetableData (generateCell w c F R d t s) = allTimetableData s"
    with new show ?thesis by (intro exI [of _ new]) auto
  next
    assume "\<exists>e. allTimetableData (generateCell w c F R d t s) = allTimetableData s @ [e] \<and>
        slotOf e = (d, t) \<and> producedFor c F R e"
    then obtain e where e: "allTimetableData (generateCell w c F R d t s) = allTimetableData s @ [e]"
      "slotOf e = (d, t)" "producedFor c F R e" by blast
    with new show ?thesis by (intro exI [of _ "e # new"]) simp
  qed
qed

lemma fold_days_data:
  "\<exists>new. allTimetableData (fold (\<lambda>d. fold (generateCell w c F R d) ts) ds s) = allTimetableData s @ new \<and>
     subseq (map slotOf new) (List.product ds ts) \<and> (\<forall>e\<in>set new. producedFor c F R e)"
proof (induction ds arbitrary: s)
  case Nil
  then show ?case by simp
next
  case (Cons d ds)
  let ?s1 = "fold (generateCell w c F R d) ts s"
  obtain new1 where new1: "allTimetableData ?s1 = allTimetableData s @ new1"
    "subseq (map slotOf new1) (map (Pair d) ts)" "\<forall>e\<in>set new1. producedFor c F R e"
    using fold_times_data [of w c F R d ts s] by blast
  obtain new2 where new2:
    "allTimetableData (fold (\<lambda>d. fold (generateCell w c F R d) ts) ds ?s1) = allTimetableData ?s1 @ new2"
    "subseq (map slotOf new2) (List.product ds ts)" "\<forall>e\<in>set new2. producedFor c F R e"
    using Cons.IH [of ?s1] by blast
  have "subseq (map slotOf new1 @ map slotOf new2) (map (Pair d) ts @ List.product ds ts)"
    using new1(2) new2(2) by (rule list_emb_append_mono)
  with new1 new2 show ?case
    by (intro exI [of _ "new1 @ new2"]) auto
qed

lemma generateTimetable_shape:
  "\<exists>new. generateTimetable w True c F R st
       = Some (filter (\<lambda>t. \<not> matchesCriteria c t) (loadStored st) @ new) \<and>
     subseq (map slotOf new) (List.product days times_slots) \<and>
     (\<forall>e\<in>set new. producedFor c F R e)"
  using fold_days_data [of w c F R times_slots days
      "\<lparr>allTimetableData = filter (\<lambda>t. \<not> matchesCriteria c t) (loadStored st), drawn = 0, clocked = 0\<rparr>"]
  by (simp add: generateTimetable_def Let_def)

lemma distinct_grid: "distinct (List.product days times_slots)"
  by (simp add: distinct_product days_def times_slots_def)

lemma subseq_distinct: "subseq xs ys \<Longrightarrow> distinct ys \<Longrightarrow> distinct xs"
  using subseqs_distinctD [of xs ys] by simp



text \<open>The equations that evaluate a run on concrete inputs.\<close>

lemmas run_eval = generateTimetable_def generateCell_def loadStored_def matchesCriteria_def
  days_def times_slots_def subjects_def randomIndex_def half.rep_eq tenth.rep_eq nine_tenths.rep_eq
  Let_def w_none_def w_first_def w_three_def w_last_def crit_A_def crit_B_def ex_now_def
  ex_faculty_def ex_room_def ex_room2_def ex_entry_def

lemmas label_eval = fallbackRoom_def numberToString_def showNat.simps parseInt_def isWhiteSpace_def
  isDigitOf_def digitVal_def digitsValue_def

subsection \<open>Runs on the example inputs\<close>

lemma run_none: "generateTimetable w_none True crit_A [] [] None = Some []"
  by (simp add: run_eval)

lemma run_first:
  "generateTimetable w_first True crit_A [] [] None =
     Some [\<lparr>t_id = 1700000000000.1, t_day = ''Monday'', t_time = ''09:00'',
       t_subject = ''Data Structures'', t_faculty = ''TBA'', t_room = ''R-130'', t_dept = ''CS'',
       t_sem = ''3'', t_section = ''A'', t_program = ''B.Tech'', t_year = ''2025-2026''\<rparr>]"
  by (simp add: run_eval label_eval)


lemma run_first_room:
  "generateTimetable w_first True crit_A [ex_faculty] [ex_room] None =
     Some [\<lparr>t_id = 1700000000000.1, t_day = ''Monday'', t_time = ''09:00'',
       t_subject = ''Data Structures'', t_faculty = ''Prof. Alan Turing'',
       t_room = ''Block A - 101'', t_dept = ''CS'',
       t_sem = ''3'', t_section = ''A'', t_program = ''B.Tech'', t_year = ''2025-2026''\<rparr>]"
  by (simp add: run_eval)

lemma run_second_section:
  "generateTimetable w_first True crit_B [ex_faculty] [ex_room]
     (generateTimetable w_first True crit_A [ex_faculty] [ex_room] None) =
     Some [\<lparr>t_id = 1700000000000.1, t_day = ''Monday'', t_time = ''09:00'',
       t_subject = ''Data Structures'', t_faculty = ''Prof. Alan Turing'',
       t_room = ''Block A - 101'', t_dept = ''CS'',
       t_sem = ''3'', t_section = ''A'', t_program = ''B.Tech'', t_year = ''2025-2026''\<rparr>,
      \<lparr>t_id = 1700000000000.1, t_day = ''Monday'', t_time = ''09:00'',
       t_subject = ''Data Structures'', t_faculty = ''Prof. Alan Turing'',
       t_room = ''Block A - 101'', t_dept = ''CS'',
       t_sem = ''3'', t_section = ''B'', t_program = ''B.Tech'', t_year = ''2025-2026''\<rparr>]"
  unfolding run_first_room by (simp add: run_eval)


lemma run_last:
  "generateTimetable w_last True crit_A [ex_faculty] [ex_room, ex_room2] None =
     Some [\<lparr>t_id = 1700000000000.9, t_day = ''Monday'', t_time = ''09:00'',
       t_subject = ''Cloud Computing'', t_faculty = ''Prof. Alan Turing'',
       t_room = ''Block A - 102'', t_dept = ''CS'',
       t_sem = ''3'', t_section = ''A'', t_program = ''B.Tech'', t_year = ''2025-2026''\<rparr>]"
  by (simp add: run_eval)

subsection \<open>Lists in pairwise different slots\<close>


lemma distinct_slots_no_double_booking:
  assumes "distinct (map slotOf ts)"
  shows "noDoubleBooking ts"
proof -
  have ts: "distinct ts" and inj: "inj_on slotOf (set ts)"
    using assms by (simp_all add: distinct_map)
  have "inj_on (\<lambda>t. (t_room t, t_day t, t_time t)) (set ts)"
    using inj by (auto simp: inj_on_def slotOf_def)
  moreover have "inj_on (\<lambda>t. (t_faculty t, t_day t, t_time t)) (set ts)"
    using inj by (auto simp: inj_on_def slotOf_def)
  ultimately show ?thesis
    using ts by (simp add: noDoubleBooking_def distinct_map)
qed

section \<open>Double booking\<close>

text \<open>
  Claim C1, as the code has it. The entries that one run adds lie in pairwise different
  slots (day and time), so among them no two share a room and a slot or a faculty member
  and a slot. The stored timetable as a whole is not covered: entries kept from other
  criteria are never compared with the new ones.
\<close>
theorem generateTimetable_run_no_double_booking:
  "\<exists>new. generateTimetable w True c facultyData roomData stored
       = Some (filter (\<lambda>t. \<not> matchesCriteria c t) (loadStored stored) @ new) \<and>
     distinct (map slotOf new) \<and> noDoubleBooking new"
proof -
  obtain new where new:
    "generateTimetable w True c facultyData roomData stored
       = Some (filter (\<lambda>t. \<not> matchesCriteria c t) (loadStored stored) @ new)"
    "subseq (map slotOf new) (List.product days times_slots)"
    using generateTimetable_shape by blast
  have "distinct (map slotOf new)"
    using new(2) distinct_grid by (rule subseq_distinct)
  then show ?thesis
    using new(1) distinct_slots_no_double_booking by blast
qed

text \<open>The run for section B on the timetable that the run for section A stored adds one entry.\<close>

theorem generateTimetable_run_no_double_booking_witness:
  "\<exists>new. generateTimetable w_first True crit_B [ex_faculty] [ex_room]
       (generateTimetable w_first True crit_A [ex_faculty] [ex_room] None)
       = Some (loadStored (generateTimetable w_first True crit_A [ex_faculty] [ex_room] None) @ new) \<and>
     length new = 1 \<and> distinct (map slotOf new) \<and> noDoubleBooking new"
  using generateTimetable_run_no_double_booking [of w_first crit_B "[ex_faculty]" "[ex_room]"
      "generateTimetable w_first True crit_A [ex_faculty] [ex_room] None"]
  unfolding run_second_section unfolding run_first_room
  by (auto simp: loadStored_def matchesCriteria_def crit_B_def)

text \<open>After these two runs the stored timetable has two entries in the same room, with the same
  faculty member, on Monday at 09:00: one of section A and one of section B.\<close>

theorem generateTimetable_double_booking_counterexample:
  "\<not> noDoubleBooking (loadStored
      (generateTimetable w_first True crit_B [ex_faculty] [ex_room]
        (generateTimetable w_first True crit_A [ex_faculty] [ex_room] None)))"
  unfolding run_second_section by (simp add: loadStored_def noDoubleBooking_def)

section \<open>Accounting for slots\<close>




section \<open>Rooms and capacity\<close>




section \<open>Faculty and workload\<close>




section \<open>The frame of a regeneration\<close>



section \<open>Validation of a new room\<close>

text \<open>
  Claim C6, as the code has it. A room is rejected, with an alert and the room list
  unchanged, exactly when the building or the number is empty or the capacity parses to
  \<^verbatim>\<open>NaN\<close> or to zero. Every other input is stored at the end of the list, with the
  parsed capacity, which may be negative.
\<close>
theorem saveRoom_validation:
  "(fst (saveRoom form now roomData) \<noteq> None \<longleftrightarrow>
      room_building form = [] \<or> room_number form = [] \<or>
      parseInt (room_capacity form) = NaN \<or> parseInt (room_capacity form) = Num 0) \<and>
   (fst (saveRoom form now roomData) \<noteq> None \<longrightarrow>
      saveRoom form now roomData = (Some required_fields_alert, roomData)) \<and>
   (fst (saveRoom form now roomData) = None \<longrightarrow>
      (\<exists>r. snd (saveRoom form now roomData) = roomData @ [r] \<and>
         parseInt (room_capacity form) = Num (r_capacity r) \<and> r_capacity r \<noteq> 0 \<and>
         r_building r = room_building form \<and> r_number r = room_number form))"
proof (cases "parseInt (room_capacity form)")
  case NaN
  then show ?thesis
    by (simp add: saveRoom_def)
next
  case (Num capacity)
  show ?thesis
  proof (cases "room_building form = [] \<or> room_number form = [] \<or> capacity = 0")
    case True
    with Num show ?thesis
      by (auto simp: saveRoom_def Let_def)
  next
    case False
    with Num show ?thesis
      by (simp add: saveRoom_def Let_def)
  qed
qed

text \<open>The capacity \<^verbatim>\<open>-5\<close> is stored; the capacity \<^verbatim>\<open>0\<close> is rejected.\<close>

theorem saveRoom_validation_witness:
  "fst (saveRoom (ex_form ''-5'') ex_now []) = None \<and>
   (\<exists>r. snd (saveRoom (ex_form ''-5'') ex_now []) = [r] \<and> r_capacity r = - 5) \<and>
   saveRoom (ex_form ''0'') ex_now [] = (Some required_fields_alert, [])"
proof -
  have neg: "parseInt (room_capacity (ex_form ''-5'')) = Num (- 5)"
    by (simp add: ex_form_def label_eval)
  have zero: "parseInt (room_capacity (ex_form ''0'')) = Num 0"
    by (simp add: ex_form_def label_eval)
  have fields: "room_building (ex_form c) \<noteq> [] \<and> room_number (ex_form c) \<noteq> []" for c
    by (simp add: ex_form_def)
  show ?thesis
    using saveRoom_validation [of "ex_form ''-5''" ex_now "[]"]
      saveRoom_validation [of "ex_form ''0''" ex_now "[]"] neg zero fields
    by auto
qed

text \<open>A room of capacity \<open>-5\<close> is added to the empty room list.\<close>

theorem saveRoom_negative_capacity_counterexample:
  "parseInt (room_capacity (ex_form ''-5'')) = Num (- 5) \<and>
   snd (saveRoom (ex_form ''-5'') ex_now []) \<noteq> []"
  by (simp add: saveRoom_def ex_form_def label_eval Let_def)

section \<open>Generated credentials\<close>





section \<open>Answers of the login\<close>



section \<open>Determinism\<close>

text \<open>
  One cell reads at most five results of \<^verbatim>\<open>Math.random()\<close> and one of
  \<^verbatim>\<open>Date.now()\<close>; two worlds that agree on the results it reads give the same
  state.
\<close>

lemma generateCell_agree:
  assumes rand: "\<And>k. k < N \<Longrightarrow> Math_random w1 k = Math_random w2 k"
    and clock: "\<And>k. k < M \<Longrightarrow> Date_now w1 k = Date_now w2 k"
    and N: "drawn s + 5 \<le> N" and M: "clocked s + 1 \<le> M"
  shows "generateCell w1 c F R d t s = generateCell w2 c F R d t s"
proof -
  have r: "Math_random w1 k = Math_random w2 k" if "k < drawn s + 5" for k
    using that N by (intro rand) linarith
  have c0: "Date_now w1 (clocked s) = Date_now w2 (clocked s)"
    using M by (intro clock) linarith
  show ?thesis
    by (simp add: generateCell_def Let_def r c0)
qed

lemma generateCell_calls:
  "drawn (generateCell w c F R d t s) \<le> drawn s + 5 \<and>
   clocked (generateCell w c F R d t s) \<le> clocked s + 1"
  by (simp add: generateCell_def Let_def)

lemma fold_times_agree:
  assumes rand: "\<And>k. k < N \<Longrightarrow> Math_random w1 k = Math_random w2 k"
    and clock: "\<And>k. k < M \<Longrightarrow> Date_now w1 k = Date_now w2 k"
  shows "drawn s + 5 * length ts \<le> N \<Longrightarrow> clocked s + length ts \<le> M \<Longrightarrow>
    fold (generateCell w1 c F R d) ts s = fold (generateCell w2 c F R d) ts s \<and>
    drawn (fold (generateCell w2 c F R d) ts s) \<le> drawn s + 5 * length ts \<and>
    clocked (fold (generateCell w2 c F R d) ts s) \<le> clocked s + length ts"
proof (induction ts arbitrary: s)
  case Nil
  then show ?case by simp
next
  case (Cons t ts)
  let ?s = "generateCell w2 c F R d t s"
  have N: "drawn s + 5 \<le> N" and M: "clocked s + 1 \<le> M"
    using Cons.prems by simp_all
  have step: "generateCell w1 c F R d t s = ?s"
    using rand clock N M by (rule generateCell_agree)
  have calls: "drawn ?s \<le> drawn s + 5" "clocked ?s \<le> clocked s + 1"
    using generateCell_calls [of w2 c F R d t s] by simp_all
  have "fold (generateCell w1 c F R d) ts ?s = fold (generateCell w2 c F R d) ts ?s \<and>
    drawn (fold (generateCell w2 c F R d) ts ?s) \<le> drawn ?s + 5 * length ts \<and>
    clocked (fold (generateCell w2 c F R d) ts ?s) \<le> clocked ?s + length ts"
    using Cons.prems calls by (intro Cons.IH) simp_all
  with step calls show ?case
    by simp
qed

lemma fold_days_agree:
  assumes rand: "\<And>k. k < N \<Longrightarrow> Math_random w1 k = Math_random w2 k"
    and clock: "\<And>k. k < M \<Longrightarrow> Date_now w1 k = Date_now w2 k"
  shows "drawn s + 5 * (length ds * length ts) \<le> N \<Longrightarrow> clocked s + length ds * length ts \<le> M \<Longrightarrow>
    fold (\<lambda>d. fold (generateCell w1 c F R d) ts) ds s
      = fold (\<lambda>d. fold (generateCell w2 c F R d) ts) ds s \<and>
    drawn (fold (\<lambda>d. fold (generateCell w2 c F R d) ts) ds s) \<le> drawn s + 5 * (length ds * length ts) \<and>
    clocked (fold (\<lambda>d. fold (generateCell w2 c F R d) ts) ds s) \<le> clocked s + length ds * length ts"
proof (induction ds arbitrary: s)
  case Nil
  then show ?case by simp
next
  case (Cons d ds)
  let ?s = "fold (generateCell w2 c F R d) ts s"
  have inner: "fold (generateCell w1 c F R d) ts s = ?s"
    "drawn ?s \<le> drawn s + 5 * length ts" "clocked ?s \<le> clocked s + length ts"
    using fold_times_agree [of N w1 w2 M s ts c F R d] rand clock Cons.prems
    by (simp_all add: algebra_simps)
  have "fold (\<lambda>d. fold (generateCell w1 c F R d) ts) ds ?s
      = fold (\<lambda>d. fold (generateCell w2 c F R d) ts) ds ?s \<and>
    drawn (fold (\<lambda>d. fold (generateCell w2 c F R d) ts) ds ?s) \<le> drawn ?s + 5 * (length ds * length ts) \<and>
    clocked (fold (\<lambda>d. fold (generateCell w2 c F R d) ts) ds ?s) \<le> clocked ?s + length ds * length ts"
    using Cons.prems inner(2,3) by (intro Cons.IH) (simp_all add: algebra_simps)
  with inner show ?case
    by (simp add: algebra_simps)
qed

text \<open>
  Claim C2, as the code has it. The result of a run is a function of its inputs together
  with the first 175 results of \<^verbatim>\<open>Math.random()\<close> and the first 35 results of
  \<^verbatim>\<open>Date.now()\<close>: two runs on the same inputs for which these results coincide
  store the same timetable. The results themselves are not inputs of the program.
\<close>

theorem generateTimetable_determined_by_draws:
  assumes "\<forall>k<175. Math_random w1 k = Math_random w2 k"
    and "\<forall>k<35. Date_now w1 k = Date_now w2 k"
  shows "generateTimetable w1 confirmed c facultyData roomData stored
    = generateTimetable w2 confirmed c facultyData roomData stored"
proof -
  have "fold (\<lambda>d. fold (generateCell w1 c facultyData roomData d) times_slots) days
          \<lparr>allTimetableData = kept, drawn = 0, clocked = 0\<rparr>
      = fold (\<lambda>d. fold (generateCell w2 c facultyData roomData d) times_slots) days
          \<lparr>allTimetableData = kept, drawn = 0, clocked = 0\<rparr>" for kept
    using fold_days_agree [of 175 w1 w2 35 "\<lparr>allTimetableData = kept, drawn = 0, clocked = 0\<rparr>"
        days times_slots c facultyData roomData] assms
    by (simp add: days_def times_slots_def)
  then show ?thesis
    by (simp add: generateTimetable_def Let_def)
qed

text \<open>Two worlds that differ only from the 176th draw and the 36th reading of the clock on.\<close>

theorem generateTimetable_determined_by_draws_witness:
  "Math_random w_first 175 \<noteq> Math_random w_late 175 \<and>
   Date_now w_first 35 \<noteq> Date_now w_late 35 \<and>
   generateTimetable w_first True crit_A [] [] None = generateTimetable w_late True crit_A [] [] None"
proof -
  have r: "\<forall>k<175. Math_random w_first k = Math_random w_late k"
    by (simp add: w_first_def w_late_def)
  have c: "\<forall>k<35. Date_now w_first k = Date_now w_late k"
    by (simp add: w_first_def w_late_def)
  have "Rep_unit_interval tenth \<noteq> Rep_unit_interval half"
    by (simp add: half.rep_eq tenth.rep_eq)
  then have "tenth \<noteq> half"
    by auto
  then have d: "Math_random w_first 175 \<noteq> Math_random w_late 175"
    by (simp add: w_first_def w_late_def)
  have e: "Date_now w_first 35 \<noteq> Date_now w_late 35"
    by (simp add: w_first_def w_late_def)
  show ?thesis
    using generateTimetable_determined_by_draws [OF r c, of True crit_A "[]" "[]" None] d e
    by (intro conjI)
qed

text \<open>
  The same stored timetable, entity lists and criteria, and two results: the empty list
  when no draw exceeds \<open>0.2\<close>, one entry when the first draw is \<open>0.5\<close>.
\<close>

theorem generateTimetable_nondeterministic_counterexample:
  "generateTimetable w_none True crit_A [] [] None
     \<noteq> generateTimetable w_first True crit_A [] [] None"
  unfolding run_none run_first by simp

section \<open>The choice among candidates\<close>

text \<open>Every index of a list is the result of some draw.\<close>

lemma randomIndex_hits:
  assumes "i < n"
  shows "\<exists>r. randomIndex r n = i"
proof -
  define x where "x = (real i + 1 / 2) / real n"
  have n: "0 < real n"
    using assms by simp
  have x0: "0 \<le> x"
    by (simp add: x_def)
  have "real i + 1 / 2 < real n"
    using assms by simp
  then have x1: "x < 1"
    using n by (simp add: x_def)
  have rep: "Rep_unit_interval (Abs_unit_interval x) = x"
    using x0 x1 by (simp add: Abs_unit_interval_inverse)
  have "x * real n = real i + 1 / 2"
    using n by (simp add: x_def)
  then have "\<lfloor>x * real n\<rfloor> = int i"
    by (simp add: floor_eq_iff)
  then have "randomIndex (Abs_unit_interval x) n = i"
    by (simp add: randomIndex_def rep)
  then show ?thesis ..
qed

lemma generateCell_picks_room:
  assumes "Rep_unit_interval (Math_random w (drawn s)) > 0.2"
    and "filter (\<lambda>r. r_type r = ''classroom'') R \<noteq> []"
    and "\<And>k. drawn s < k \<Longrightarrow> Math_random w k = r"
  shows "\<exists>e. allTimetableData (generateCell w c F R d t s) = allTimetableData s @ [e] \<and>
     slotOf e = (d, t) \<and>
     t_room e = r_fullName (filter (\<lambda>r. r_type r = ''classroom'') R
       ! randomIndex r (length (filter (\<lambda>r. r_type r = ''classroom'') R)))"
  using assms by (simp add: generateCell_def Let_def slotOf_def)

text \<open>
  Claim C7, as the code has it. The room of an entry is the stored classroom at the index
  that the draw gives, with no penalty and no tie-break: for every stored room of type
  \<^verbatim>\<open>classroom\<close>, whatever its identifier, some sequence of draws makes the run commit it
  for the first slot.
\<close>

theorem generateTimetable_any_classroom:
  assumes "\<rho> \<in> set roomData" and "r_type \<rho> = ''classroom''"
  shows "\<exists>w e rest. generateTimetable w True c facultyData roomData stored
       = Some (filter (\<lambda>t. \<not> matchesCriteria c t) (loadStored stored) @ e # rest) \<and>
     slotOf e = (''Monday'', ''09:00'') \<and> t_room e = r_fullName \<rho>"
proof -
  let ?rel = "filter (\<lambda>r. r_type r = ''classroom'') roomData"
  let ?kept = "filter (\<lambda>t. \<not> matchesCriteria c t) (loadStored stored)"
  let ?ds = "[''Tuesday'', ''Wednesday'', ''Thursday'', ''Friday'']"
  let ?ts = "[''10:00'', ''11:00'', ''12:00'', ''01:00'', ''02:00'', ''03:00'']"
  have "\<rho> \<in> set ?rel"
    using assms by simp
  then obtain i where i: "i < length ?rel" "?rel ! i = \<rho>"
    unfolding in_set_conv_nth by blast
  obtain r where r: "randomIndex r (length ?rel) = i"
    using randomIndex_hits [OF i(1)] by blast
  define w where "w = \<lparr>Math_random = (\<lambda>k. if k = 0 then half else r), Date_now = (\<lambda>k. 0)\<rparr>"
  define s0 where "s0 = \<lparr>allTimetableData = ?kept, drawn = 0, clocked = 0\<rparr>"
  let ?g = "generateCell w c facultyData roomData"
  let ?s1 = "?g ''Monday'' ''09:00'' s0"
  let ?s2 = "fold (?g ''Monday'') ?ts ?s1"
  let ?s3 = "fold (\<lambda>d. fold (?g d) times_slots) ?ds ?s2"
  have "\<exists>e. allTimetableData ?s1 = allTimetableData s0 @ [e] \<and>
     slotOf e = (''Monday'', ''09:00'') \<and>
     t_room e = r_fullName (?rel ! randomIndex r (length ?rel))"
  proof (rule generateCell_picks_room)
    show "Rep_unit_interval (Math_random w (drawn s0)) > 0.2"
      by (simp add: w_def s0_def half.rep_eq)
    show "?rel \<noteq> []"
      using i(1) by auto
    show "Math_random w k = r" if "drawn s0 < k" for k
      using that by (simp add: w_def s0_def)
  qed
  then obtain e where e: "allTimetableData ?s1 = ?kept @ [e]"
    "slotOf e = (''Monday'', ''09:00'')" "t_room e = r_fullName \<rho>"
    using r i(2) by (auto simp: s0_def)
  obtain new1 where new1: "allTimetableData ?s2 = allTimetableData ?s1 @ new1"
    using fold_times_data [of w c facultyData roomData "''Monday''" ?ts ?s1] by blast
  obtain new2 where new2: "allTimetableData ?s3 = allTimetableData ?s2 @ new2"
    using fold_days_data [of w c facultyData roomData times_slots ?ds ?s2] by blast
  have "generateTimetable w True c facultyData roomData stored = Some (allTimetableData ?s3)"
    by (simp add: generateTimetable_def Let_def days_def s0_def times_slots_def)
  also have "allTimetableData ?s3 = ?kept @ e # (new1 @ new2)"
    by (simp only: new2 new1 e(1) append_assoc append_Cons append_Nil)
  finally show ?thesis
    using e(2,3) by blast
qed

text \<open>The second of two classrooms is committed for Monday at 09:00.\<close>

theorem generateTimetable_any_classroom_witness:
  "\<exists>w e rest. generateTimetable w True crit_A [] [ex_room, ex_room2] None = Some (e # rest) \<and>
     slotOf e = (''Monday'', ''09:00'') \<and> t_room e = ''Block A - 102''"
  using generateTimetable_any_classroom [of ex_room2 "[ex_room, ex_room2]" crit_A "[]" None]
  by (simp add: ex_room2_def loadStored_def)

text \<open>
  With two free classrooms, of identifiers 1 and 2, the run commits the one of
  identifier 2.
\<close>

theorem generateTimetable_lowest_room_counterexample:
  "\<not> commitsLowestRoomId [ex_room, ex_room2]
      (loadStored (generateTimetable w_last True crit_A [ex_faculty] [ex_room, ex_room2] None))"
  unfolding run_last
  by (simp add: loadStored_def commitsLowestRoomId_def ex_room_def ex_room2_def)

end
